theory Spec2Isabelle
  imports Complex_Main
begin

section \<open>Python exceptions\<close>

text \<open>
  The exception classes that \<^verbatim>\<open>src/models/model_evaluation.py\<close> names in an
  \<^verbatim>\<open>except\<close> clause, and those the calls it makes raise. All of them derive from
  \<^verbatim>\<open>Exception\<close>; \<open>mro\<close> is the method resolution order of each class, which is what an
  \<^verbatim>\<open>except C\<close> clause tests. \<^verbatim>\<open>IOError\<close> is Python 3's alias of \<^verbatim>\<open>OSError\<close>;
  pandas' \<^verbatim>\<open>EmptyDataError\<close> and \<^verbatim>\<open>ParserError\<close> derive from \<^verbatim>\<open>ValueError\<close>.
  Signals outside \<^verbatim>\<open>Exception\<close> (\<^verbatim>\<open>KeyboardInterrupt\<close>, \<^verbatim>\<open>SystemExit\<close>) are not failures
  of a stage and are not modelled.
\<close>

datatype exn_class =
    Exception | OSError | FileNotFoundError | UnpicklingError | YAMLError
  | KeyError | IndexError | AttributeError | ValueError | TypeError
  | EmptyDataError | ParserError

abbreviation IOError :: exn_class where
  "IOError \<equiv> OSError"

fun mro :: "exn_class \<Rightarrow> exn_class list" where
  "mro Exception = [Exception]"
| "mro OSError = [OSError, Exception]"
| "mro FileNotFoundError = [FileNotFoundError, OSError, Exception]"
| "mro UnpicklingError = [UnpicklingError, Exception]"
| "mro YAMLError = [YAMLError, Exception]"
| "mro KeyError = [KeyError, Exception]"
| "mro IndexError = [IndexError, Exception]"
| "mro AttributeError = [AttributeError, Exception]"
| "mro ValueError = [ValueError, Exception]"
| "mro TypeError = [TypeError, Exception]"
| "mro EmptyDataError = [EmptyDataError, ValueError, Exception]"
| "mro ParserError = [ParserError, ValueError, Exception]"

text \<open>An exception object: its class and the text \<^verbatim>\<open>str(e)\<close> that an f-string prints.\<close>

datatype exn = Exn exn_class string

fun cls :: "exn \<Rightarrow> exn_class" where
  "cls (Exn c m) = c"

fun str :: "exn \<Rightarrow> string" where
  "str (Exn c m) = m"

definition isinstance :: "exn \<Rightarrow> exn_class \<Rightarrow> bool" where
  "isinstance e c = (c \<in> set (mro (cls e)))"

definition quote :: "string \<Rightarrow> string" where
  "quote s = CHR 0x27 # s @ [CHR 0x27]"

section \<open>Python values, tables and classifiers\<close>

text \<open>
  A float is idealised: a finite value is an exact rational (rounding is not modelled),
  and \<open>NaN\<close> is kept apart.
\<close>

datatype pyfloat = Float rat | NaN

text \<open>
  What \<^verbatim>\<open>yaml.safe_load\<close> can return and what a metrics dictionary can hold. A dictionary
  is an association list in insertion order, its keys given by their \<^verbatim>\<open>str()\<close>;
  \<open>PObject t\<close> is any other object, of type name \<open>t\<close>.
\<close>

datatype pyval =
    PNone | PBool bool | PInt int | PFloat pyfloat | PStr string
  | PList "pyval list" | PDict "(string \<times> pyval) list" | PObject string

fun type_name :: "pyval \<Rightarrow> string" where
  "type_name PNone = ''NoneType''"
| "type_name (PBool b) = ''bool''"
| "type_name (PInt i) = ''int''"
| "type_name (PFloat f) = ''float''"
| "type_name (PStr s) = ''str''"
| "type_name (PList xs) = ''list''"
| "type_name (PDict kvs) = ''dict''"
| "type_name (PObject t) = t"

text \<open>\<^verbatim>\<open>value.items()\<close>: only a dictionary has the attribute.\<close>

fun items :: "pyval \<Rightarrow> exn + (string \<times> pyval) list" where
  "items (PDict kvs) = Inr kvs"
| "items v = Inl (Exn AttributeError
     (quote (type_name v) @ '' object has no attribute '' @ quote ''items''))"

text \<open>
  A pandas DataFrame of integer cells, held by columns: its number of rows and, per
  column, the header and the cells. \<^verbatim>\<open>iloc[:, :-1]\<close> keeps all columns but the last;
  \<^verbatim>\<open>iloc[:, -1]\<close> is the last column and raises \<^verbatim>\<open>IndexError\<close> on a frame without columns.
\<close>

record dataframe =
  nrows :: nat
  columns :: "(string \<times> int list) list"

definition iloc_all_but_last :: "dataframe \<Rightarrow> dataframe" where
  "iloc_all_but_last df = df\<lparr>columns := butlast (columns df)\<rparr>"

definition iloc_last :: "dataframe \<Rightarrow> exn + int list" where
  "iloc_last df =
     (if columns df = [] then Inl (Exn IndexError ''single positional indexer is out-of-bounds'')
      else Inr (snd (last (columns df))))"

text \<open>
  The unpickled object. \<open>predict\<close> and \<open>predict_proba\<close> are \<open>None\<close> when the object has no
  such attribute; otherwise they are what the method does on a table: raise, or return the
  labels, respectively the probability matrix (a 2-D array, held as its list of columns).
\<close>

record classifier =
  cls_name :: string
  predict :: "(dataframe \<Rightarrow> exn + int list) option"
  predict_proba :: "(dataframe \<Rightarrow> exn + rat list list) option"

definition call_predict :: "classifier \<Rightarrow> dataframe \<Rightarrow> exn + int list" where
  "call_predict clf X =
     (case predict clf of
        None \<Rightarrow> Inl (Exn AttributeError
          (quote (cls_name clf) @ '' object has no attribute '' @ quote ''predict''))
      | Some f \<Rightarrow> f X)"

definition call_predict_proba :: "classifier \<Rightarrow> dataframe \<Rightarrow> exn + rat list list" where
  "call_predict_proba clf X =
     (case predict_proba clf of
        None \<Rightarrow> Inl (Exn AttributeError
          (quote (cls_name clf) @ '' object has no attribute '' @ quote ''predict_proba''))
      | Some f \<Rightarrow> f X)"

text \<open>\<^verbatim>\<open>a[:, 1]\<close> on a 2-D array: column 1, \<^verbatim>\<open>IndexError\<close> when axis 1 has fewer than two entries.\<close>

definition column1 :: "rat list list \<Rightarrow> exn + rat list" where
  "column1 a =
     (if length a \<le> 1 then Inl (Exn IndexError ''index 1 is out of bounds for axis 1'')
      else Inr (a ! 1))"

section \<open>The world: files, the logger, the tracking session\<close>

datatype level = DEBUG | INFO | WARNING | ERROR | CRITICAL

fun levelno :: "level \<Rightarrow> nat" where
  "levelno DEBUG = 10"
| "levelno INFO = 20"
| "levelno WARNING = 30"
| "levelno ERROR = 40"
| "levelno CRITICAL = 50"

datatype live_event = Started | Metric string pyfloat | Param string pyval | Ended

text \<open>
  \<open>fs\<close> maps the path of each existing file to its content (the log file
  \<^verbatim>\<open>errors.log\<close> apart: what the logger emits is in \<open>logged\<close>); \<open>unwritable\<close> gives, for a
  path that cannot be opened for writing (missing directory, permissions), the
  \<^verbatim>\<open>OSError\<close> that \<^verbatim>\<open>open(path, 'w')\<close> raises; \<open>logged\<close> holds the records the logger
  \<^verbatim>\<open>'Model Evaluation'\<close> (level DEBUG) has emitted, oldest first; \<open>live\<close> is the trace of
  the experiment tracker.
\<close>

record world =
  fs :: "string \<rightharpoonup> string"
  unwritable :: "string \<rightharpoonup> exn"
  logged :: "(level \<times> string) list"
  live :: "live_event list"

text \<open>
  The library calls whose results the program only passes on: \<^verbatim>\<open>pickle.load\<close>,
  \<^verbatim>\<open>pd.read_csv\<close> and \<^verbatim>\<open>yaml.safe_load\<close> on the content of a file; \<^verbatim>\<open>json.dump\<close>, which
  writes text to the file and may raise after part of it; the constructor of
  \<^verbatim>\<open>dvclive.Live\<close> and its \<^verbatim>\<open>log_metric\<close> and \<^verbatim>\<open>log_param\<close>, which may raise.
\<close>

record libs =
  pickle_load :: "string \<Rightarrow> exn + classifier"
  read_csv :: "string \<Rightarrow> exn + dataframe"
  safe_load :: "string \<Rightarrow> exn + pyval"
  json_dump :: "pyval \<Rightarrow> string \<times> exn option"
  Live_init :: "exn option"
  log_metric_error :: "string \<Rightarrow> pyfloat \<Rightarrow> exn option"
  log_param_error :: "string \<Rightarrow> pyval \<Rightarrow> exn option"

text \<open>A statement either returns a value or raises, and leaves a world behind.\<close>

type_synonym 'a io = "world \<Rightarrow> (exn + 'a) \<times> world"

definition return_ok :: "'a \<Rightarrow> 'a io" where
  "return_ok a w = (Inr a, w)"

definition raise_exn :: "exn \<Rightarrow> 'a io" where
  "raise_exn e w = (Inl e, w)"

definition lift_pure :: "exn + 'a \<Rightarrow> 'a io" where
  "lift_pure r w = (r, w)"

definition then_do :: "'a io \<Rightarrow> ('a \<Rightarrow> 'b io) \<Rightarrow> 'b io" where
  "then_do m f w = (case m w of (Inl e, w') \<Rightarrow> (Inl e, w') | (Inr a, w') \<Rightarrow> f a w')"

definition try_except :: "'a io \<Rightarrow> (exn \<Rightarrow> 'a io) \<Rightarrow> 'a io" where
  "try_except body handler w =
     (case body w of (Inl e, w') \<Rightarrow> handler e w' | (Inr a, w') \<Rightarrow> (Inr a, w'))"

definition logger_emit :: "level \<Rightarrow> string \<Rightarrow> unit io" where
  "logger_emit l m w = (Inr (), w\<lparr>logged := logged w @ [(l, m)]\<rparr>)"

definition logger_error :: "string \<Rightarrow> unit io" where
  "logger_error m = logger_emit ERROR m"

definition logger_debug :: "string \<Rightarrow> unit io" where
  "logger_debug m = logger_emit DEBUG m"

text \<open>The console handler has level DEBUG, the handler of \<^verbatim>\<open>errors.log\<close> level WARNING.\<close>

definition console_records :: "world \<Rightarrow> (level \<times> string) list" where
  "console_records w = filter (\<lambda>(l, m). levelno DEBUG \<le> levelno l) (logged w)"

definition errors_log_records :: "world \<Rightarrow> (level \<times> string) list" where
  "errors_log_records w = filter (\<lambda>(l, m). levelno WARNING \<le> levelno l) (logged w)"

text \<open>Opening a path for reading and reading it whole.\<close>

definition open_read :: "string \<Rightarrow> string io" where
  "open_read url w =
     (case fs w url of
        None \<Rightarrow> (Inl (Exn FileNotFoundError
          (''[Errno 2] No such file or directory: '' @ quote url)), w)
      | Some content \<Rightarrow> (Inr content, w))"

text \<open>\<^verbatim>\<open>open(path, 'w')\<close> creates the file or truncates it, unless the open itself fails.\<close>

definition open_write :: "string \<Rightarrow> unit io" where
  "open_write path w =
     (case unwritable w path of
        Some e \<Rightarrow> (Inl e, w)
      | None \<Rightarrow> (Inr (), w\<lparr>fs := (fs w)(path \<mapsto> [])\<rparr>))"

definition file_write :: "string \<Rightarrow> string \<Rightarrow> unit io" where
  "file_write path txt w =
     (Inr (), w\<lparr>fs := (fs w)(path \<mapsto> (case fs w path of None \<Rightarrow> [] | Some old \<Rightarrow> old) @ txt)\<rparr>)"

text \<open>\<^verbatim>\<open>os.path.join\<close> of two components (POSIX).\<close>

definition os_path_join :: "string \<Rightarrow> string \<Rightarrow> string" where
  "os_path_join a b =
     (if b \<noteq> [] \<and> hd b = CHR ''/'' then b
      else if a = [] \<or> last a = CHR ''/'' then a @ b
      else a @ ''/'' @ b)"

section \<open>The loaders\<close>

definition load_params_except :: "string \<Rightarrow> exn \<Rightarrow> pyval io" where
  "load_params_except url e =
     (if isinstance e FileNotFoundError then
        then_do (logger_error (''Error: The file '' @ url @ '' was not found.''))
          (\<lambda>_. raise_exn e)
      else if isinstance e YAMLError then
        then_do (logger_error (''Error parsing YAML file: '' @ str e)) (\<lambda>_. raise_exn e)
      else if isinstance e KeyError then
        then_do (logger_error
          (''Error: '' @ quote ''model_building'' @ '', '' @ quote ''n_estimators'' @ '', or ''
             @ quote ''learning_rate'' @ '' key not found in params.''))
          (\<lambda>_. raise_exn e)
      else if isinstance e Exception then
        then_do (logger_error
          (''An unexpected error occurred while loading parameters: '' @ str e))
          (\<lambda>_. raise_exn e)
      else raise_exn e)"

definition load_params :: "libs \<Rightarrow> string \<Rightarrow> pyval io" where
  "load_params L url =
     try_except
       (then_do (open_read url) (\<lambda>file. lift_pure (safe_load L file)))
       (load_params_except url)"

definition load_model_except :: "string \<Rightarrow> exn \<Rightarrow> classifier io" where
  "load_model_except url e =
     (if isinstance e FileNotFoundError then
        then_do (logger_error (''Error: The file '' @ url @ '' was not found.''))
          (\<lambda>_. raise_exn e)
      else if isinstance e UnpicklingError then
        then_do (logger_error
          ''Error: The file could not be unpickled. It may not be a valid pickle file.'')
          (\<lambda>_. raise_exn e)
      else if isinstance e Exception then
        then_do (logger_error
          (''An unexpected error occurred while loading the model: '' @ str e))
          (\<lambda>_. raise_exn e)
      else raise_exn e)"

definition load_model :: "libs \<Rightarrow> string \<Rightarrow> classifier io" where
  "load_model L url =
     try_except
       (then_do (open_read url) (\<lambda>file. lift_pure (pickle_load L file)))
       (load_model_except url)"

definition load_data_except :: "string \<Rightarrow> exn \<Rightarrow> dataframe io" where
  "load_data_except datapath e =
     (if isinstance e FileNotFoundError then
        then_do (logger_error
          (''Error: File not found in path '' @ datapath @ ''. Details: '' @ str e))
          (\<lambda>_. raise_exn e)
      else if isinstance e EmptyDataError then
        then_do (logger_error ''Error: The CSV file is empty.'') (\<lambda>_. raise_exn e)
      else if isinstance e ParserError then
        then_do (logger_error ''Error: Error parsing the CSV file.'') (\<lambda>_. raise_exn e)
      else if isinstance e Exception then
        then_do (logger_error
          (''An unexpected error occurred while loading data: '' @ str e))
          (\<lambda>_. raise_exn e)
      else raise_exn e)"

definition load_data :: "libs \<Rightarrow> string \<Rightarrow> dataframe io" where
  "load_data L datapath =
     try_except
       (then_do (open_read (os_path_join datapath ''test_bow.csv''))
          (\<lambda>file. lift_pure (read_csv L file)))
       (load_data_except datapath)"

section \<open>The scikit-learn metrics\<close>

text \<open>
  \<^verbatim>\<open>accuracy_score\<close>, \<^verbatim>\<open>precision_score\<close>, \<^verbatim>\<open>recall_score\<close> and \<^verbatim>\<open>roc_auc_score\<close> as
  the program calls them (default arguments: \<^verbatim>\<open>pos_label=1\<close>, \<^verbatim>\<open>average='binary'\<close>,
  \<^verbatim>\<open>zero_division='warn'\<close>, \<^verbatim>\<open>multi_class='raise'\<close>), on integer labels, following the
  scikit-learn documentation. Every failure of theirs is a \<^verbatim>\<open>ValueError\<close>; its text is
  abbreviated. On a target with a single class \<^verbatim>\<open>roc_auc_score\<close> warns that the score is
  not defined and returns nan.
\<close>

definition inconsistent_length :: exn where
  "inconsistent_length =
     Exn ValueError ''Found input variables with inconsistent numbers of samples''"

definition count_where :: "(int \<Rightarrow> int \<Rightarrow> bool) \<Rightarrow> int list \<Rightarrow> int list \<Rightarrow> nat" where
  "count_where P y_true y_pred = length (filter (\<lambda>(t, p). P t p) (zip y_true y_pred))"

text \<open>The fraction of rows whose prediction equals the label; the mean of no rows is nan.\<close>

definition accuracy_score :: "int list \<Rightarrow> int list \<Rightarrow> exn + pyfloat" where
  "accuracy_score y_true y_pred =
     (if length y_true \<noteq> length y_pred then Inl inconsistent_length
      else if y_true = [] then Inr NaN
      else Inr (Float (of_nat (count_where (\<lambda>t p. t = p) y_true y_pred) / of_nat (length y_true))))"

text \<open>
  The checks of a binary-average score: equal lengths, at most two labels over both
  arguments, and the positive label 1 among them when there are two.
\<close>

definition check_set_wise_labels :: "int list \<Rightarrow> int list \<Rightarrow> exn option" where
  "check_set_wise_labels y_true y_pred =
     (let present_labels = remdups (y_true @ y_pred) in
      if length y_true \<noteq> length y_pred then Some inconsistent_length
      else if 2 < length present_labels then
        Some (Exn ValueError ''Target is multiclass but average=binary'')
      else if 1 \<notin> set present_labels \<and> 2 \<le> length present_labels then
        Some (Exn ValueError ''pos_label=1 is not a valid label'')
      else None)"

text \<open>A ratio of counts; a zero denominator gives 0.0 (with a warning).\<close>

definition divide_counts :: "nat \<Rightarrow> nat \<Rightarrow> pyfloat" where
  "divide_counts a b = (if b = 0 then Float 0 else Float (of_nat a / of_nat b))"

definition precision_score :: "int list \<Rightarrow> int list \<Rightarrow> exn + pyfloat" where
  "precision_score y_true y_pred =
     (case check_set_wise_labels y_true y_pred of
        Some e \<Rightarrow> Inl e
      | None \<Rightarrow> Inr (divide_counts
          (count_where (\<lambda>t p. t = 1 \<and> p = 1) y_true y_pred)
          (count_where (\<lambda>t p. p = 1) y_true y_pred)))"

definition recall_score :: "int list \<Rightarrow> int list \<Rightarrow> exn + pyfloat" where
  "recall_score y_true y_pred =
     (case check_set_wise_labels y_true y_pred of
        Some e \<Rightarrow> Inl e
      | None \<Rightarrow> Inr (divide_counts
          (count_where (\<lambda>t p. t = 1 \<and> p = 1) y_true y_pred)
          (count_where (\<lambda>t p. t = 1) y_true y_pred)))"

text \<open>
  The area under the ROC curve of a binary target: over all pairs of a positive and a
  negative row, the fraction in which the positive row has the higher score, a tie
  counting one half. The greater of the two labels is the positive one.
\<close>

definition pair_score :: "rat \<Rightarrow> rat \<Rightarrow> rat" where
  "pair_score p n = (if n < p then 1 else if n = p then 1 / 2 else 0)"

definition auc_value :: "rat list \<Rightarrow> rat list \<Rightarrow> rat" where
  "auc_value pos neg =
     sum_list (concat (map (\<lambda>p. map (pair_score p) neg) pos)) / of_nat (length pos * length neg)"

definition scores_where :: "(int \<Rightarrow> bool) \<Rightarrow> int list \<Rightarrow> rat list \<Rightarrow> rat list" where
  "scores_where P y_true y_score = map snd (filter (\<lambda>(t, s). P t) (zip y_true y_score))"

definition roc_auc_score :: "int list \<Rightarrow> rat list \<Rightarrow> exn + pyfloat" where
  "roc_auc_score y_true y_score =
     (let classes = remdups y_true in
      if y_true = [] \<or> y_score = [] then
        Inl (Exn ValueError ''Found array with 0 sample(s)'')
      else if 2 < length classes then
        Inl (Exn ValueError ''multi_class must be in (ovo, ovr)'')
      else if length classes \<noteq> 2 then Inr NaN
      else if length y_true \<noteq> length y_score then Inl inconsistent_length
      else
        let pos_label = fold max y_true (hd y_true) in
        Inr (Float (auc_value (scores_where (\<lambda>t. t = pos_label) y_true y_score)
                              (scores_where (\<lambda>t. t \<noteq> pos_label) y_true y_score))))"

section \<open>The tracking session\<close>

text \<open>
  \<^verbatim>\<open>with Live(save_dvc_exp=True) as live: body\<close>. When the constructor raises, no session
  starts. Otherwise the body runs in the started session and \<^verbatim>\<open>__exit__\<close> ends it
  whether the body returned or raised; \<^verbatim>\<open>__exit__\<close> returns nothing, so what the body
  raised propagates.
\<close>

definition with_Live :: "libs \<Rightarrow> 'a io \<Rightarrow> 'a io" where
  "with_Live L body w =
     (case Live_init L of
        Some e \<Rightarrow> (Inl e, w)
      | None \<Rightarrow>
          (case body (w\<lparr>live := live w @ [Started]\<rparr>) of
             (r, w') \<Rightarrow> (r, w'\<lparr>live := live w' @ [Ended]\<rparr>)))"

definition live_log_metric :: "libs \<Rightarrow> string \<Rightarrow> pyfloat \<Rightarrow> unit io" where
  "live_log_metric L name val w =
     (case log_metric_error L name val of
        Some e \<Rightarrow> (Inl e, w)
      | None \<Rightarrow> (Inr (), w\<lparr>live := live w @ [Metric name val]\<rparr>))"

definition live_log_param :: "libs \<Rightarrow> string \<Rightarrow> pyval \<Rightarrow> unit io" where
  "live_log_param L name val w =
     (case log_param_error L name val of
        Some e \<Rightarrow> (Inl e, w)
      | None \<Rightarrow> (Inr (), w\<lparr>live := live w @ [Param name val]\<rparr>))"

text \<open>The inner loop: \<^verbatim>\<open>for key, val in value.items(): live.log_param(f'{param}_{key}', val)\<close>.\<close>

fun log_section :: "libs \<Rightarrow> string \<Rightarrow> (string \<times> pyval) list \<Rightarrow> unit io" where
  "log_section L param [] = return_ok ()"
| "log_section L param ((key, val) # rest) =
     then_do (live_log_param L (param @ ''_'' @ key) val) (\<lambda>_. log_section L param rest)"

text \<open>The outer loop: \<^verbatim>\<open>for param, value in params.items(): ...\<close>.\<close>

fun log_sections :: "libs \<Rightarrow> (string \<times> pyval) list \<Rightarrow> unit io" where
  "log_sections L [] = return_ok ()"
| "log_sections L ((param, value) # rest) =
     then_do (lift_pure (items value)) (\<lambda>kvs.
     then_do (log_section L param kvs) (\<lambda>_.
     log_sections L rest))"

section \<open>The evaluator\<close>

definition live_block :: "libs \<Rightarrow> pyval \<Rightarrow> pyfloat \<Rightarrow> pyfloat \<Rightarrow> pyfloat \<Rightarrow> pyfloat \<Rightarrow> unit io" where
  "live_block L params accuracy precision recall auc =
     then_do (live_log_metric L ''accuracy'' accuracy) (\<lambda>_.
     then_do (live_log_metric L ''precision'' precision) (\<lambda>_.
     then_do (live_log_metric L ''recall'' recall) (\<lambda>_.
     then_do (live_log_metric L ''roc -auc score'' auc) (\<lambda>_.
     then_do (lift_pure (items params)) (\<lambda>sections.
     log_sections L sections)))))"

definition evaluate_model_try :: "libs \<Rightarrow> classifier \<Rightarrow> dataframe \<Rightarrow> int list \<Rightarrow> pyval io" where
  "evaluate_model_try L clf X_test Y_test =
     then_do (lift_pure (call_predict clf X_test)) (\<lambda>Y_pred.
     then_do (lift_pure (call_predict_proba clf X_test)) (\<lambda>proba.
     then_do (lift_pure (column1 proba)) (\<lambda>Y_pred_proba.
     then_do (load_params L ''params.yaml'') (\<lambda>params.
     then_do (lift_pure (accuracy_score Y_test Y_pred)) (\<lambda>accuracy.
     then_do (lift_pure (precision_score Y_test Y_pred)) (\<lambda>precision.
     then_do (lift_pure (recall_score Y_test Y_pred)) (\<lambda>recall.
     then_do (lift_pure (roc_auc_score Y_test Y_pred_proba)) (\<lambda>auc.
     then_do (with_Live L (live_block L params accuracy precision recall auc)) (\<lambda>_.
     return_ok (PDict
       [(''accuracy'', PFloat accuracy),
        (''precision'', PFloat precision),
        (''recall'', PFloat recall),
        (''auc'', PFloat auc)]))))))))))"

definition evaluate_model_except :: "exn \<Rightarrow> pyval io" where
  "evaluate_model_except e =
     (if isinstance e AttributeError then
        then_do (logger_error
          (''Error: Model does not have the required methods. Details: '' @ str e))
          (\<lambda>_. raise_exn e)
      else if isinstance e ValueError then
        then_do (logger_error
          (''Error: Value error in predictions or metrics calculation. Details: '' @ str e))
          (\<lambda>_. raise_exn e)
      else if isinstance e Exception then
        then_do (logger_error
          (''An unexpected error occurred while evaluating the model: '' @ str e))
          (\<lambda>_. raise_exn e)
      else raise_exn e)"

definition evaluate_model :: "libs \<Rightarrow> classifier \<Rightarrow> dataframe \<Rightarrow> int list \<Rightarrow> pyval io" where
  "evaluate_model L clf X_test Y_test =
     try_except (evaluate_model_try L clf X_test Y_test) evaluate_model_except"

section \<open>The metrics writer\<close>

text \<open>
  \<^verbatim>\<open>with open(file_path, 'w') as file: json.dump(metrics, file, indent=4)\<close>: the file is
  opened first; what \<^verbatim>\<open>json.dump\<close> wrote before it returned or raised is in the file when
  the \<^verbatim>\<open>with\<close> block closes it.
\<close>

definition save_metrics_dict_try :: "libs \<Rightarrow> pyval \<Rightarrow> string \<Rightarrow> unit io" where
  "save_metrics_dict_try L metrics file_path =
     then_do (open_write file_path) (\<lambda>_.
     (case json_dump L metrics of
        (txt, r) \<Rightarrow>
          then_do (file_write file_path txt) (\<lambda>_.
          (case r of None \<Rightarrow> return_ok () | Some e \<Rightarrow> raise_exn e))))"

definition save_metrics_dict_except :: "exn \<Rightarrow> unit io" where
  "save_metrics_dict_except e =
     (if isinstance e IOError then
        then_do (logger_error
          (''Error: An I/O error occurred while saving the metrics: '' @ str e))
          (\<lambda>_. raise_exn e)
      else if isinstance e TypeError then
        then_do (logger_error (''Error: Type error in metrics dictionary. Details: '' @ str e))
          (\<lambda>_. raise_exn e)
      else if isinstance e Exception then
        then_do (logger_error
          (''An unexpected error occurred while saving metrics: '' @ str e))
          (\<lambda>_. raise_exn e)
      else raise_exn e)"

definition save_metrics_dict :: "libs \<Rightarrow> pyval \<Rightarrow> string \<Rightarrow> unit io" where
  "save_metrics_dict L metrics file_path =
     try_except (save_metrics_dict_try L metrics file_path) save_metrics_dict_except"

section \<open>The entry point\<close>

definition main_try :: "libs \<Rightarrow> unit io" where
  "main_try L =
     then_do (load_model L ''models/model.pkl'') (\<lambda>clf.
     then_do (logger_debug ''Saved model loaded successfully'') (\<lambda>_.
     then_do (load_data L ''data/processed'') (\<lambda>test_data.
     then_do (logger_debug ''Test Data loaded successfully'') (\<lambda>_.
     then_do (return_ok (iloc_all_but_last test_data)) (\<lambda>X_test.
     then_do (lift_pure (iloc_last test_data)) (\<lambda>Y_test.
     then_do (evaluate_model L clf X_test Y_test) (\<lambda>metrics_dict.
     then_do (logger_debug ''Model Evaluation dictionary created successfully'') (\<lambda>_.
     then_do (save_metrics_dict L metrics_dict ''reports/metrics.json'') (\<lambda>_.
     logger_debug ''JSON dump of model evaluation dictionary done'')))))))))"

definition main_except :: "exn \<Rightarrow> unit io" where
  "main_except e =
     (if isinstance e Exception then
        logger_error (''An error occurred in the main function: '' @ str e)
      else raise_exn e)"

definition main :: "libs \<Rightarrow> unit io" where
  "main L = try_except (main_try L) main_except"

section \<open>An example run\<close>

text \<open>
  A test table of four rows whose last column is the label, a classifier that predicts 1
  on every row, a parameter file of two sections, libraries that succeed, and a world
  that holds the three input files and an earlier report.
\<close>

definition ex_frame :: dataframe where
  "ex_frame = \<lparr>nrows = 4,
     columns = [(''good'', [2, 1, 0, 3]), (''bad'', [0, 0, 4, 1]), (''label'', [1, 1, 0, 1])]\<rparr>"

definition ex_clf :: classifier where
  "ex_clf = \<lparr>cls_name = ''GradientBoostingClassifier'',
     predict = Some (\<lambda>X. Inr (replicate (nrows X) 1)),
     predict_proba =
       Some (\<lambda>X. Inr [[1 / 10, 2 / 10, 7 / 10, 3 / 10], [9 / 10, 8 / 10, 3 / 10, 7 / 10]])\<rparr>"

definition ex_params :: pyval where
  "ex_params = PDict
     [(''feature_engineering'', PDict [(''max_features'', PInt 1000)]),
      (''model_building'',
         PDict [(''n_estimators'', PInt 50), (''learning_rate'', PFloat (Float (1 / 10)))])]"

definition ex_libs :: libs where
  "ex_libs = \<lparr>pickle_load = (\<lambda>s. Inr ex_clf), read_csv = (\<lambda>s. Inr ex_frame),
     safe_load = (\<lambda>s. Inr ex_params), json_dump = (\<lambda>v. (''{...}'', None)),
     Live_init = None, log_metric_error = (\<lambda>n v. None), log_param_error = (\<lambda>n v. None)\<rparr>"

definition ex_world :: world where
  "ex_world = \<lparr>fs = [''models/model.pkl'' \<mapsto> ''(pickle)'',
       ''data/processed/test_bow.csv'' \<mapsto> ''(csv)'', ''params.yaml'' \<mapsto> ''(yaml)'',
       ''reports/metrics.json'' \<mapsto> ''(old report)''],
     unwritable = Map.empty, logged = [], live = []\<rparr>"

section \<open>Basic facts\<close>

lemmas io_defs = return_ok_def raise_exn_def lift_pure_def then_do_def try_except_def
  logger_emit_def logger_error_def logger_debug_def

lemmas ex_defs = ex_frame_def ex_clf_def ex_params_def ex_libs_def ex_world_def

lemmas prog_defs = main_def main_try_def main_except_def load_model_def load_model_except_def
  load_data_def load_data_except_def load_params_def load_params_except_def
  evaluate_model_def evaluate_model_try_def evaluate_model_except_def live_block_def
  save_metrics_dict_def save_metrics_dict_try_def save_metrics_dict_except_def
  open_read_def open_write_def file_write_def os_path_join_def isinstance_def
  call_predict_def call_predict_proba_def column1_def iloc_last_def iloc_all_but_last_def
  with_Live_def live_log_metric_def live_log_param_def

lemmas metric_defs = accuracy_score_def precision_score_def recall_score_def roc_auc_score_def
  check_set_wise_labels_def divide_counts_def count_where_def auc_value_def scores_where_def
  pair_score_def inconsistent_length_def

lemma isinstance_Exception: "isinstance e Exception"
  by (cases e, cases "cls e") (auto simp: isinstance_def)

section \<open>The entry point swallows every failure\<close>

lemma main_result:
  "main_try L w = (r, w1) \<Longrightarrow>
   main L w =
     (case r of
        Inr u \<Rightarrow> (Inr (), w1)
      | Inl e \<Rightarrow> (Inr (), w1\<lparr>logged := logged w1 @
          [(ERROR, ''An error occurred in the main function: '' @ str e)]\<rparr>))"
  by (simp add: main_def main_except_def io_defs isinstance_Exception split: sum.splits)

lemma main_returns: "fst (main L w) = Inr ()"
  by (cases "main_try L w")
     (auto simp: main_def main_except_def io_defs isinstance_Exception split: sum.splits)

lemma main_try_load_model_fails:
  "load_model L ''models/model.pkl'' w = (Inl e, w1) \<Longrightarrow> main_try L w = (Inl e, w1)"
  by (simp add: main_try_def then_do_def)

lemma main_try_load_data_fails:
  "load_model L ''models/model.pkl'' w = (Inr clf, w1) \<Longrightarrow>
   load_data L ''data/processed''
     (snd (logger_debug ''Saved model loaded successfully'' w1)) = (Inl e, w2) \<Longrightarrow>
   main_try L w = (Inl e, w2)"
  by (simp add: main_try_def io_defs)

lemma main_try_evaluate_fails:
  "load_model L ''models/model.pkl'' w = (Inr clf, w1) \<Longrightarrow>
   load_data L ''data/processed''
     (snd (logger_debug ''Saved model loaded successfully'' w1)) = (Inr test_data, w2) \<Longrightarrow>
   iloc_last test_data = Inr Y_test \<Longrightarrow>
   evaluate_model L clf (iloc_all_but_last test_data) Y_test
     (snd (logger_debug ''Test Data loaded successfully'' w2)) = (Inl e, w3) \<Longrightarrow>
   main_try L w = (Inl e, w3)"
  by (simp add: main_try_def io_defs)

lemma main_try_save_fails:
  "load_model L ''models/model.pkl'' w = (Inr clf, w1) \<Longrightarrow>
   load_data L ''data/processed''
     (snd (logger_debug ''Saved model loaded successfully'' w1)) = (Inr test_data, w2) \<Longrightarrow>
   iloc_last test_data = Inr Y_test \<Longrightarrow>
   evaluate_model L clf (iloc_all_but_last test_data) Y_test
     (snd (logger_debug ''Test Data loaded successfully'' w2)) = (Inr metrics_dict, w3) \<Longrightarrow>
   save_metrics_dict L metrics_dict ''reports/metrics.json''
     (snd (logger_debug ''Model Evaluation dictionary created successfully'' w3)) = (Inl e, w4) \<Longrightarrow>
   main_try L w = (Inl e, w4)"
  by (simp add: main_try_def io_defs)

text \<open>
  C1. Whatever the libraries and the world, \<open>main\<close> returns normally. When a stage
  raises (the model load, the data load, the evaluation or the metrics save, each reached
  after the stages before it succeeded), \<open>main\<close> catches the exception, emits one record
  of level ERROR that carries its text, and returns normally: nothing is re-raised.
\<close>

theorem main_catches_every_stage_failure:
  "fst (main L w) = Inr () \<and>
   (\<forall>e w1. load_model L ''models/model.pkl'' w = (Inl e, w1) \<longrightarrow>
      main L w = (Inr (), w1\<lparr>logged := logged w1 @
        [(ERROR, ''An error occurred in the main function: '' @ str e)]\<rparr>)) \<and>
   (\<forall>clf w1 e w2.
      load_model L ''models/model.pkl'' w = (Inr clf, w1) \<and>
      load_data L ''data/processed''
        (snd (logger_debug ''Saved model loaded successfully'' w1)) = (Inl e, w2) \<longrightarrow>
      main L w = (Inr (), w2\<lparr>logged := logged w2 @
        [(ERROR, ''An error occurred in the main function: '' @ str e)]\<rparr>)) \<and>
   (\<forall>clf w1 test_data w2 Y_test e w3.
      load_model L ''models/model.pkl'' w = (Inr clf, w1) \<and>
      load_data L ''data/processed''
        (snd (logger_debug ''Saved model loaded successfully'' w1)) = (Inr test_data, w2) \<and>
      iloc_last test_data = Inr Y_test \<and>
      evaluate_model L clf (iloc_all_but_last test_data) Y_test
        (snd (logger_debug ''Test Data loaded successfully'' w2)) = (Inl e, w3) \<longrightarrow>
      main L w = (Inr (), w3\<lparr>logged := logged w3 @
        [(ERROR, ''An error occurred in the main function: '' @ str e)]\<rparr>)) \<and>
   (\<forall>clf w1 test_data w2 Y_test metrics_dict w3 e w4.
      load_model L ''models/model.pkl'' w = (Inr clf, w1) \<and>
      load_data L ''data/processed''
        (snd (logger_debug ''Saved model loaded successfully'' w1)) = (Inr test_data, w2) \<and>
      iloc_last test_data = Inr Y_test \<and>
      evaluate_model L clf (iloc_all_but_last test_data) Y_test
        (snd (logger_debug ''Test Data loaded successfully'' w2)) = (Inr metrics_dict, w3) \<and>
      save_metrics_dict L metrics_dict ''reports/metrics.json''
        (snd (logger_debug ''Model Evaluation dictionary created successfully'' w3))
          = (Inl e, w4) \<longrightarrow>
      main L w = (Inr (), w4\<lparr>logged := logged w4 @
        [(ERROR, ''An error occurred in the main function: '' @ str e)]\<rparr>))"
proof (intro conjI allI impI)
  show "fst (main L w) = Inr ()" by (rule main_returns)
next
  fix e w1
  assume "load_model L ''models/model.pkl'' w = (Inl e, w1)"
  then have "main_try L w = (Inl e, w1)" by (rule main_try_load_model_fails)
  then show "main L w = (Inr (), w1\<lparr>logged := logged w1 @
        [(ERROR, ''An error occurred in the main function: '' @ str e)]\<rparr>)"
    by (simp add: main_result)
next
  fix clf w1 e w2
  assume "load_model L ''models/model.pkl'' w = (Inr clf, w1) \<and>
      load_data L ''data/processed''
        (snd (logger_debug ''Saved model loaded successfully'' w1)) = (Inl e, w2)"
  then have "main_try L w = (Inl e, w2)" by (blast intro: main_try_load_data_fails)
  then show "main L w = (Inr (), w2\<lparr>logged := logged w2 @
        [(ERROR, ''An error occurred in the main function: '' @ str e)]\<rparr>)"
    by (simp add: main_result)
next
  fix clf w1 test_data w2 Y_test e w3
  assume "load_model L ''models/model.pkl'' w = (Inr clf, w1) \<and>
      load_data L ''data/processed''
        (snd (logger_debug ''Saved model loaded successfully'' w1)) = (Inr test_data, w2) \<and>
      iloc_last test_data = Inr Y_test \<and>
      evaluate_model L clf (iloc_all_but_last test_data) Y_test
        (snd (logger_debug ''Test Data loaded successfully'' w2)) = (Inl e, w3)"
  then have "main_try L w = (Inl e, w3)" by (blast intro: main_try_evaluate_fails)
  then show "main L w = (Inr (), w3\<lparr>logged := logged w3 @
        [(ERROR, ''An error occurred in the main function: '' @ str e)]\<rparr>)"
    by (simp add: main_result)
next
  fix clf w1 test_data w2 Y_test metrics_dict w3 e w4
  assume "load_model L ''models/model.pkl'' w = (Inr clf, w1) \<and>
      load_data L ''data/processed''
        (snd (logger_debug ''Saved model loaded successfully'' w1)) = (Inr test_data, w2) \<and>
      iloc_last test_data = Inr Y_test \<and>
      evaluate_model L clf (iloc_all_but_last test_data) Y_test
        (snd (logger_debug ''Test Data loaded successfully'' w2)) = (Inr metrics_dict, w3) \<and>
      save_metrics_dict L metrics_dict ''reports/metrics.json''
        (snd (logger_debug ''Model Evaluation dictionary created successfully'' w3))
          = (Inl e, w4)"
  then have "main_try L w = (Inl e, w4)" by (blast intro: main_try_save_fails)
  then show "main L w = (Inr (), w4\<lparr>logged := logged w4 @
        [(ERROR, ''An error occurred in the main function: '' @ str e)]\<rparr>)"
    by (simp add: main_result)
qed

theorem main_catches_every_stage_failure_witness:
  "last (logged (snd (main ex_libs (ex_world\<lparr>fs := (fs ex_world)(''models/model.pkl'' := None)\<rparr>))))
     = (ERROR, ''An error occurred in the main function: [Errno 2] No such file or directory: ''
          @ quote ''models/model.pkl'') \<and>
   last (logged (snd (main ex_libs
       (ex_world\<lparr>fs := (fs ex_world)(''data/processed/test_bow.csv'' := None)\<rparr>))))
     = (ERROR, ''An error occurred in the main function: [Errno 2] No such file or directory: ''
          @ quote ''data/processed/test_bow.csv'') \<and>
   last (logged (snd (main (ex_libs\<lparr>pickle_load := \<lambda>s. Inr (ex_clf\<lparr>predict := None\<rparr>)\<rparr>) ex_world)))
     = (ERROR, ''An error occurred in the main function: '' @ quote ''GradientBoostingClassifier''
          @ '' object has no attribute '' @ quote ''predict'') \<and>
   last (logged (snd (main ex_libs
       (ex_world\<lparr>unwritable := [''reports/metrics.json'' \<mapsto> Exn OSError ''[Errno 13] Permission denied'']\<rparr>))))
     = (ERROR, ''An error occurred in the main function: [Errno 13] Permission denied'')"
proof -
  let ?w1 = "ex_world\<lparr>fs := (fs ex_world)(''models/model.pkl'' := None)\<rparr>"
  let ?w2 = "ex_world\<lparr>fs := (fs ex_world)(''data/processed/test_bow.csv'' := None)\<rparr>"
  let ?L3 = "ex_libs\<lparr>pickle_load := \<lambda>s. Inr (ex_clf\<lparr>predict := None\<rparr>)\<rparr>"
  let ?w4 = "ex_world\<lparr>unwritable := [''reports/metrics.json'' \<mapsto> Exn OSError ''[Errno 13] Permission denied'']\<rparr>"
  let ?dbg1 = "logger_debug ''Saved model loaded successfully''"
  let ?dbg2 = "logger_debug ''Test Data loaded successfully''"
  let ?dbg3 = "logger_debug ''Model Evaluation dictionary created successfully''"
  note stage = main_catches_every_stage_failure
  have m1: "load_model ex_libs ''models/model.pkl'' ?w1 =
      (Inl (Exn FileNotFoundError
         (''[Errno 2] No such file or directory: '' @ quote ''models/model.pkl'')),
       snd (load_model ex_libs ''models/model.pkl'' ?w1))"
    by (simp add: ex_defs prog_defs io_defs)
  have c1: "last (logged (snd (main ex_libs ?w1))) =
      (ERROR, ''An error occurred in the main function: [Errno 2] No such file or directory: ''
          @ quote ''models/model.pkl'')"
    using stage [of ex_libs ?w1, THEN conjunct2, THEN conjunct1, rule_format, OF m1]
    by simp
  have m2: "load_model ex_libs ''models/model.pkl'' ?w2 = (Inr ex_clf, ?w2)"
    by (simp add: ex_defs prog_defs io_defs)
  have d2: "load_data ex_libs ''data/processed'' (snd (?dbg1 ?w2)) =
      (Inl (Exn FileNotFoundError
         (''[Errno 2] No such file or directory: '' @ quote ''data/processed/test_bow.csv'')),
       snd (load_data ex_libs ''data/processed'' (snd (?dbg1 ?w2))))"
    by (simp add: ex_defs prog_defs io_defs)
  have c2: "last (logged (snd (main ex_libs ?w2))) =
      (ERROR, ''An error occurred in the main function: [Errno 2] No such file or directory: ''
          @ quote ''data/processed/test_bow.csv'')"
    using stage [of ex_libs ?w2, THEN conjunct2, THEN conjunct2, THEN conjunct1, rule_format,
        OF conjI [OF m2 d2]]
    by simp
  have m3: "load_model ?L3 ''models/model.pkl'' ex_world = (Inr (ex_clf\<lparr>predict := None\<rparr>), ex_world)"
    by (simp add: ex_defs prog_defs io_defs)
  have d3: "load_data ?L3 ''data/processed'' (snd (?dbg1 ex_world)) =
      (Inr ex_frame, snd (?dbg1 ex_world))"
    by (simp add: ex_defs prog_defs io_defs)
  have y3: "iloc_last ex_frame = Inr [1, 1, 0, 1]"
    by (simp add: ex_defs prog_defs)
  have e3: "evaluate_model ?L3 (ex_clf\<lparr>predict := None\<rparr>) (iloc_all_but_last ex_frame) [1, 1, 0, 1]
        (snd (?dbg2 (snd (?dbg1 ex_world)))) =
      (Inl (Exn AttributeError (quote ''GradientBoostingClassifier''
          @ '' object has no attribute '' @ quote ''predict'')),
       snd (evaluate_model ?L3 (ex_clf\<lparr>predict := None\<rparr>) (iloc_all_but_last ex_frame)
         [1, 1, 0, 1] (snd (?dbg2 (snd (?dbg1 ex_world))))))"
    by (simp add: ex_defs prog_defs io_defs)
  have c3: "last (logged (snd (main ?L3 ex_world))) =
      (ERROR, ''An error occurred in the main function: '' @ quote ''GradientBoostingClassifier''
          @ '' object has no attribute '' @ quote ''predict'')"
    using stage [of ?L3 ex_world, THEN conjunct2, THEN conjunct2, THEN conjunct2, THEN conjunct1,
        rule_format, OF conjI [OF m3 conjI [OF d3 conjI [OF y3 e3]]]]
    by simp
  have m4: "load_model ex_libs ''models/model.pkl'' ?w4 = (Inr ex_clf, ?w4)"
    by (simp add: ex_defs prog_defs io_defs)
  have d4: "load_data ex_libs ''data/processed'' (snd (?dbg1 ?w4)) =
      (Inr ex_frame, snd (?dbg1 ?w4))"
    by (simp add: ex_defs prog_defs io_defs)
  have e4: "evaluate_model ex_libs ex_clf (iloc_all_but_last ex_frame) [1, 1, 0, 1]
        (snd (?dbg2 (snd (?dbg1 ?w4)))) =
      (Inr (PDict [(''accuracy'', PFloat (Float (3 / 4))), (''precision'', PFloat (Float (3 / 4))),
          (''recall'', PFloat (Float 1)), (''auc'', PFloat (Float 1))]),
       snd (evaluate_model ex_libs ex_clf (iloc_all_but_last ex_frame) [1, 1, 0, 1]
         (snd (?dbg2 (snd (?dbg1 ?w4))))))"
    by (simp add: ex_defs prog_defs metric_defs io_defs eval_nat_numeral)
  have s4: "save_metrics_dict ex_libs
        (PDict [(''accuracy'', PFloat (Float (3 / 4))), (''precision'', PFloat (Float (3 / 4))),
          (''recall'', PFloat (Float 1)), (''auc'', PFloat (Float 1))])
        ''reports/metrics.json''
        (snd (?dbg3 (snd (evaluate_model ex_libs ex_clf (iloc_all_but_last ex_frame) [1, 1, 0, 1]
         (snd (?dbg2 (snd (?dbg1 ?w4)))))))) =
      (Inl (Exn OSError ''[Errno 13] Permission denied''),
       snd (save_metrics_dict ex_libs
        (PDict [(''accuracy'', PFloat (Float (3 / 4))), (''precision'', PFloat (Float (3 / 4))),
          (''recall'', PFloat (Float 1)), (''auc'', PFloat (Float 1))])
        ''reports/metrics.json''
        (snd (?dbg3 (snd (evaluate_model ex_libs ex_clf (iloc_all_but_last ex_frame) [1, 1, 0, 1]
         (snd (?dbg2 (snd (?dbg1 ?w4)))))))))) "
    by (simp add: ex_defs prog_defs metric_defs io_defs eval_nat_numeral)
  have c4: "last (logged (snd (main ex_libs ?w4))) =
      (ERROR, ''An error occurred in the main function: [Errno 13] Permission denied'')"
    using stage [of ex_libs ?w4, THEN conjunct2, THEN conjunct2, THEN conjunct2, THEN conjunct2,
        rule_format, OF conjI [OF m4 conjI [OF d4 conjI [OF y3 conjI [OF e4 s4]]]]]
    by simp
  from c1 c2 c3 c4 show ?thesis by blast
qed

section \<open>A missing model artifact\<close>

lemma load_model_absent:
  "fs w url = None \<Longrightarrow>
   load_model L url w =
     (Inl (Exn FileNotFoundError (''[Errno 2] No such file or directory: '' @ quote url)),
      w\<lparr>logged := logged w @ [(ERROR, ''Error: The file '' @ url @ '' was not found.'')]\<rparr>)"
  by (simp add: load_model_def load_model_except_def open_read_def io_defs isinstance_def)

lemma model_absent_main_result:
  "fs w ''models/model.pkl'' = None \<Longrightarrow>
   main L w = (Inr (), w\<lparr>logged := logged w @
      [(ERROR, ''Error: The file models/model.pkl was not found.''),
       (ERROR, ''An error occurred in the main function: [Errno 2] No such file or directory: ''
          @ quote ''models/model.pkl'')]\<rparr>)"
proof -
  assume a: "fs w ''models/model.pkl'' = None"
  have "main_try L w =
     (Inl (Exn FileNotFoundError (''[Errno 2] No such file or directory: '' @ quote ''models/model.pkl'')),
      w\<lparr>logged := logged w @ [(ERROR, ''Error: The file '' @ ''models/model.pkl'' @ '' was not found.'')]\<rparr>)"
    by (rule main_try_load_model_fails) (rule load_model_absent [OF a])
  then show ?thesis by (simp add: main_result)
qed

text \<open>
  C2. When \<^verbatim>\<open>models/model.pkl\<close> is absent, \<open>main\<close> returns normally, the log holds the
  ERROR record \<^verbatim>\<open>Error: The file models/model.pkl was not found.\<close> (which contains
  \<^verbatim>\<open>not found\<close>, and passes the handler of \<^verbatim>\<open>errors.log\<close>), and the files are as before: \<^verbatim>\<open>reports/metrics.json\<close> is neither
  created nor modified, the writer never being reached.
\<close>

theorem main_model_absent:
  "fs w ''models/model.pkl'' = None \<Longrightarrow>
   fst (main L w) = Inr () \<and>
   (ERROR, ''Error: The file models/model.pkl was '' @ ''not found'' @ ''.'')
      \<in> set (logged (snd (main L w))) \<and>
   (ERROR, ''Error: The file models/model.pkl was '' @ ''not found'' @ ''.'')
      \<in> set (errors_log_records (snd (main L w))) \<and>
   fs (snd (main L w)) = fs w \<and>
   fs (snd (main L w)) ''reports/metrics.json'' = fs w ''reports/metrics.json''"
  by (simp add: model_absent_main_result errors_log_records_def)

theorem main_model_absent_witness:
  "fs (ex_world\<lparr>fs := (fs ex_world)(''models/model.pkl'' := None)\<rparr>) ''models/model.pkl'' = None \<and>
   fst (main ex_libs (ex_world\<lparr>fs := (fs ex_world)(''models/model.pkl'' := None)\<rparr>)) = Inr () \<and>
   (ERROR, ''Error: The file models/model.pkl was not found.'')
      \<in> set (logged (snd (main ex_libs (ex_world\<lparr>fs := (fs ex_world)(''models/model.pkl'' := None)\<rparr>)))) \<and>
   (ERROR, ''Error: The file models/model.pkl was not found.'')
      \<in> set (errors_log_records
          (snd (main ex_libs (ex_world\<lparr>fs := (fs ex_world)(''models/model.pkl'' := None)\<rparr>)))) \<and>
   fs (snd (main ex_libs (ex_world\<lparr>fs := (fs ex_world)(''models/model.pkl'' := None)\<rparr>)))
      ''reports/metrics.json'' = Some ''(old report)''"
proof -
  let ?w = "ex_world\<lparr>fs := (fs ex_world)(''models/model.pkl'' := None)\<rparr>"
  have h: "fs ?w ''models/model.pkl'' = None" by simp
  have old: "fs ?w ''reports/metrics.json'' = Some ''(old report)''"
    by (simp add: ex_world_def)
  from main_model_absent [OF h, of ex_libs] h old show ?thesis by simp
qed

section \<open>A model without \<open>predict\<close>\<close>

lemma evaluate_model_no_predict:
  "predict clf = None \<Longrightarrow>
   evaluate_model L clf X_test Y_test w =
     (Inl (Exn AttributeError
        (quote (cls_name clf) @ '' object has no attribute '' @ quote ''predict'')),
      w\<lparr>logged := logged w @
        [(ERROR, ''Error: Model does not have the required methods. Details: '' @
           quote (cls_name clf) @ '' object has no attribute '' @ quote ''predict'')]\<rparr>)"
  by (simp add: evaluate_model_def evaluate_model_try_def evaluate_model_except_def
      call_predict_def io_defs isinstance_def)

text \<open>
  C6. For a model object without a \<open>predict\<close> attribute, \<open>evaluate_model\<close> raises an
  \<^verbatim>\<open>AttributeError\<close>, whatever the other arguments: the error is logged by the
  \<^verbatim>\<open>except AttributeError\<close> branch at level ERROR, then re-raised, and no metrics are
  returned.
\<close>

theorem evaluate_model_without_predict:
  "predict clf = None \<Longrightarrow>
   (\<exists>e. fst (evaluate_model L clf X_test Y_test w) = Inl e \<and> cls e = AttributeError \<and>
      isinstance e AttributeError \<and>
      snd (evaluate_model L clf X_test Y_test w) = w\<lparr>logged := logged w @
        [(ERROR, ''Error: Model does not have the required methods. Details: '' @ str e)]\<rparr>)"
  by (simp add: evaluate_model_no_predict isinstance_def)

theorem evaluate_model_without_predict_witness:
  "predict (ex_clf\<lparr>predict := None\<rparr>) = None \<and>
   evaluate_model ex_libs (ex_clf\<lparr>predict := None\<rparr>) (iloc_all_but_last ex_frame) [1, 1, 0, 1] ex_world =
     (Inl (Exn AttributeError (quote ''GradientBoostingClassifier'' @ '' object has no attribute ''
        @ quote ''predict'')),
      ex_world\<lparr>logged := [(ERROR, ''Error: Model does not have the required methods. Details: '' @
        quote ''GradientBoostingClassifier'' @ '' object has no attribute '' @ quote ''predict'')]\<rparr>)"
proof -
  let ?clf = "ex_clf\<lparr>predict := None\<rparr>"
  have h: "predict ?clf = None" by simp
  from evaluate_model_without_predict [OF h, of ex_libs "iloc_all_but_last ex_frame" "[1, 1, 0, 1]" ex_world]
  obtain e where e: "fst (evaluate_model ex_libs ?clf (iloc_all_but_last ex_frame) [1, 1, 0, 1] ex_world) = Inl e"
    "snd (evaluate_model ex_libs ?clf (iloc_all_but_last ex_frame) [1, 1, 0, 1] ex_world) = ex_world\<lparr>logged := logged ex_world @
        [(ERROR, ''Error: Model does not have the required methods. Details: '' @ str e)]\<rparr>"
    by blast
  have "fst (evaluate_model ex_libs ?clf (iloc_all_but_last ex_frame) [1, 1, 0, 1] ex_world) =
     Inl (Exn AttributeError (quote ''GradientBoostingClassifier'' @ '' object has no attribute ''
        @ quote ''predict''))"
    by (simp add: ex_defs prog_defs io_defs)
  with e have "e = Exn AttributeError (quote ''GradientBoostingClassifier'' @ '' object has no attribute ''
        @ quote ''predict'')" by simp
  with e h show ?thesis by (simp add: prod_eq_iff ex_world_def)
qed

section \<open>What a successful evaluation went through\<close>

lemma then_do_InrE:
  assumes "then_do m f w = (Inr b, w')"
  obtains a w1 where "m w = (Inr a, w1)" and "f a w1 = (Inr b, w')"
  using assms by (auto simp: then_do_def split: prod.splits sum.splits)

lemma lift_pure_InrE:
  assumes "lift_pure r w = (Inr a, w')"
  obtains "r = Inr a" and "w' = w"
  using assms by (auto simp: lift_pure_def)

lemma evaluate_model_except_raises: "fst (evaluate_model_except e w) = Inl e"
  by (simp add: evaluate_model_except_def io_defs)

lemma try_except_evaluate_Inr:
  "evaluate_model L clf X_test Y_test w = (Inr m, w') \<Longrightarrow>
   evaluate_model_try L clf X_test Y_test w = (Inr m, w')"
  using evaluate_model_except_raises
  by (auto simp: evaluate_model_def try_except_def split: prod.splits sum.splits)
     (metis fst_conv sum.distinct(1))

lemma call_predict_InrE:
  assumes "call_predict clf X = Inr Y_pred"
  obtains f where "predict clf = Some f" and "f X = Inr Y_pred"
  using assms by (auto simp: call_predict_def split: option.splits)

lemma call_predict_proba_InrE:
  assumes "call_predict_proba clf X = Inr P"
  obtains g where "predict_proba clf = Some g" and "g X = Inr P"
  using assms by (auto simp: call_predict_proba_def split: option.splits)

lemma column1_InrE:
  assumes "column1 P = Inr c"
  obtains "1 < length P" and "c = P ! 1"
  using assms by (auto simp: column1_def split: if_splits)

lemma evaluate_model_success:
  assumes "evaluate_model L clf X_test Y_test w = (Inr m, w')"
  obtains f Y_pred g P params w1 accuracy precision recall auc where
    "predict clf = Some f" "f X_test = Inr Y_pred"
    "predict_proba clf = Some g" "g X_test = Inr P" "1 < length P"
    "load_params L ''params.yaml'' w = (Inr params, w1)"
    "accuracy_score Y_test Y_pred = Inr accuracy"
    "precision_score Y_test Y_pred = Inr precision"
    "recall_score Y_test Y_pred = Inr recall"
    "roc_auc_score Y_test (P ! 1) = Inr auc"
    "with_Live L (live_block L params accuracy precision recall auc) w1 = (Inr (), w')"
    "m = PDict [(''accuracy'', PFloat accuracy), (''precision'', PFloat precision),
                (''recall'', PFloat recall), (''auc'', PFloat auc)]"
proof -
  from assms have "evaluate_model_try L clf X_test Y_test w = (Inr m, w')"
    by (rule try_except_evaluate_Inr)
  then obtain Y_pred P c params w1 accuracy precision recall auc where
    s: "call_predict clf X_test = Inr Y_pred" "call_predict_proba clf X_test = Inr P"
      "column1 P = Inr c" "load_params L ''params.yaml'' w = (Inr params, w1)"
      "accuracy_score Y_test Y_pred = Inr accuracy"
      "precision_score Y_test Y_pred = Inr precision"
      "recall_score Y_test Y_pred = Inr recall"
      "roc_auc_score Y_test c = Inr auc"
      "with_Live L (live_block L params accuracy precision recall auc) w1 = (Inr (), w')"
      "m = PDict [(''accuracy'', PFloat accuracy), (''precision'', PFloat precision),
                (''recall'', PFloat recall), (''auc'', PFloat auc)]"
    unfolding evaluate_model_try_def
    by (elim then_do_InrE lift_pure_InrE) (auto simp: return_ok_def)
  from s(1) obtain f where f: "predict clf = Some f" "f X_test = Inr Y_pred"
    by (rule call_predict_InrE)
  from s(2) obtain g where g: "predict_proba clf = Some g" "g X_test = Inr P"
    by (rule call_predict_proba_InrE)
  from s(3) have c: "1 < length P" "c = P ! 1"
    by (auto elim: column1_InrE)
  from f g c s show thesis
    by (intro that [of f Y_pred g P params w1 accuracy precision recall auc]) simp_all
qed

section \<open>The metrics lie between 0 and 1\<close>

lemma pair_score_bounds: "0 \<le> pair_score p n \<and> pair_score p n \<le> 1"
  by (simp add: pair_score_def)

lemma sum_list_unit_bounds:
  fixes xs :: "rat list"
  assumes "\<And>x. x \<in> set xs \<Longrightarrow> 0 \<le> x \<and> x \<le> 1"
  shows "0 \<le> sum_list xs \<and> sum_list xs \<le> of_nat (length xs)"
  using assms
proof (induction xs)
  case Nil
  then show ?case by simp
next
  case (Cons x xs)
  then have "0 \<le> x \<and> x \<le> 1" and "0 \<le> sum_list xs \<and> sum_list xs \<le> of_nat (length xs)"
    by simp_all
  then show ?case by simp
qed

lemma length_pairs:
  "length (concat (map (\<lambda>p. map (pair_score p) neg) pos)) = length pos * length neg"
  by (induction pos) simp_all

lemma ratio_bounds:
  fixes s :: rat
  shows "0 \<le> s \<Longrightarrow> s \<le> of_nat n \<Longrightarrow> 0 \<le> s / of_nat n \<and> s / of_nat n \<le> 1"
  by (cases "n = 0") (simp_all add: divide_le_eq_1)

lemma auc_value_bounds: "0 \<le> auc_value pos neg \<and> auc_value pos neg \<le> 1"
proof -
  let ?xs = "concat (map (\<lambda>p. map (pair_score p) neg) pos)"
  have "\<And>x. x \<in> set ?xs \<Longrightarrow> 0 \<le> x \<and> x \<le> 1"
    using pair_score_bounds by auto
  then have "0 \<le> sum_list ?xs \<and> sum_list ?xs \<le> of_nat (length ?xs)"
    by (rule sum_list_unit_bounds)
  then have "0 \<le> sum_list ?xs" and "sum_list ?xs \<le> of_nat (length pos * length neg)"
    unfolding length_pairs by blast+
  then show ?thesis
    unfolding auc_value_def by (rule ratio_bounds)
qed

lemma divide_counts_bounds:
  "a \<le> b \<Longrightarrow> \<exists>x. divide_counts a b = Float x \<and> 0 \<le> x \<and> x \<le> 1"
  by (simp add: divide_counts_def divide_le_eq_1)

lemma filter_length_mono:
  "(\<And>x. x \<in> set xs \<Longrightarrow> P x \<Longrightarrow> Q x) \<Longrightarrow> length (filter P xs) \<le> length (filter Q xs)"
  by (induction xs) (auto simp: le_SucI)

lemma count_where_mono:
  "(\<And>t p. P t p \<Longrightarrow> Q t p) \<Longrightarrow> count_where P y_true y_pred \<le> count_where Q y_true y_pred"
  unfolding count_where_def by (rule filter_length_mono) auto

lemma count_where_le_length:
  "length y_true = length y_pred \<Longrightarrow> count_where P y_true y_pred \<le> length y_true"
  unfolding count_where_def
  using length_filter_le [of "\<lambda>(t, p). P t p" "zip y_true y_pred"] by simp

lemma accuracy_score_bounds:
  "accuracy_score y_true y_pred = Inr a \<Longrightarrow> y_true \<noteq> [] \<Longrightarrow>
   \<exists>x. a = Float x \<and> 0 \<le> x \<and> x \<le> 1"
  using count_where_le_length [of y_true y_pred "\<lambda>t p. t = p"]
  by (auto simp: accuracy_score_def divide_le_eq_1 split: if_splits)

lemma precision_score_bounds:
  "precision_score y_true y_pred = Inr a \<Longrightarrow> \<exists>x. a = Float x \<and> 0 \<le> x \<and> x \<le> 1"
proof -
  assume a: "precision_score y_true y_pred = Inr a"
  have "count_where (\<lambda>t p. t = 1 \<and> p = 1) y_true y_pred \<le> count_where (\<lambda>t p. p = 1) y_true y_pred"
    by (rule count_where_mono) simp
  from divide_counts_bounds [OF this] obtain x where
    x: "divide_counts (count_where (\<lambda>t p. t = 1 \<and> p = 1) y_true y_pred)
          (count_where (\<lambda>t p. p = 1) y_true y_pred) = Float x" "0 \<le> x" "x \<le> 1"
    by blast
  from a have "a = divide_counts (count_where (\<lambda>t p. t = 1 \<and> p = 1) y_true y_pred)
          (count_where (\<lambda>t p. p = 1) y_true y_pred)"
    by (auto simp: precision_score_def split: option.splits)
  with x show ?thesis by simp
qed

lemma recall_score_bounds:
  "recall_score y_true y_pred = Inr a \<Longrightarrow> \<exists>x. a = Float x \<and> 0 \<le> x \<and> x \<le> 1"
proof -
  assume a: "recall_score y_true y_pred = Inr a"
  have "count_where (\<lambda>t p. t = 1 \<and> p = 1) y_true y_pred \<le> count_where (\<lambda>t p. t = 1) y_true y_pred"
    by (rule count_where_mono) simp
  from divide_counts_bounds [OF this] obtain x where
    x: "divide_counts (count_where (\<lambda>t p. t = 1 \<and> p = 1) y_true y_pred)
          (count_where (\<lambda>t p. t = 1) y_true y_pred) = Float x" "0 \<le> x" "x \<le> 1"
    by blast
  from a have "a = divide_counts (count_where (\<lambda>t p. t = 1 \<and> p = 1) y_true y_pred)
          (count_where (\<lambda>t p. t = 1) y_true y_pred)"
    by (auto simp: recall_score_def split: option.splits)
  with x show ?thesis by simp
qed

lemma roc_auc_score_bounds:
  "roc_auc_score y_true y_score = Inr a \<Longrightarrow>
   y_true \<noteq> [] \<and>
   (length (remdups y_true) = 2 \<longrightarrow> (\<exists>x. a = Float x \<and> 0 \<le> x \<and> x \<le> 1))"
  using auc_value_bounds
  by (auto simp: roc_auc_score_def Let_def split: if_splits)

lemma both_classes_remdups:
  fixes ys :: "int list"
  shows "set ys = {0, 1} \<Longrightarrow> length (remdups ys) = 2"
  by (simp add: length_remdups_card_conv)

lemma roc_auc_score_one_class:
  "y_true \<noteq> [] \<Longrightarrow> y_score \<noteq> [] \<Longrightarrow> length (remdups y_true) = 1 \<Longrightarrow>
   roc_auc_score y_true y_score = Inr NaN"
  by (simp add: roc_auc_score_def)

section \<open>The metrics dictionary\<close>

text \<open>
  C3. Every successful call of \<open>evaluate_model\<close> returns a flat dictionary with exactly
  the four keys \<^verbatim>\<open>accuracy\<close>, \<^verbatim>\<open>precision\<close>, \<^verbatim>\<open>recall\<close> and \<^verbatim>\<open>auc\<close>, each holding a
  float; when the labels of \<open>Y_test\<close> are binary, both classes 0 and 1 occurring among
  them, each of the four values is a number between 0 and 1. (With one class only, the
  call can succeed with nan under \<^verbatim>\<open>auc\<close>: lemma \<open>ex_evaluate_one_class\<close> below.)
\<close>

theorem evaluate_model_metrics_result:
  "evaluate_model L clf X_test Y_test w = (Inr m, w') \<Longrightarrow>
   (\<exists>a p r u.
      m = PDict [(''accuracy'', PFloat a), (''precision'', PFloat p),
                 (''recall'', PFloat r), (''auc'', PFloat u)] \<and>
      (set Y_test = {0, 1} \<longrightarrow>
         (\<forall>v \<in> {a, p, r, u}. \<exists>x. v = Float x \<and> 0 \<le> x \<and> x \<le> 1)))"
proof -
  assume "evaluate_model L clf X_test Y_test w = (Inr m, w')"
  then obtain Y_pred c a p r u where
    s: "accuracy_score Y_test Y_pred = Inr a" "precision_score Y_test Y_pred = Inr p"
       "recall_score Y_test Y_pred = Inr r" "roc_auc_score Y_test c = Inr u"
       "m = PDict [(''accuracy'', PFloat a), (''precision'', PFloat p),
                   (''recall'', PFloat r), (''auc'', PFloat u)]"
    by (elim evaluate_model_success) blast
  from s(4) have ne: "Y_test \<noteq> []"
    and u: "length (remdups Y_test) = 2 \<longrightarrow> (\<exists>x. u = Float x \<and> 0 \<le> x \<and> x \<le> 1)"
    using roc_auc_score_bounds by blast+
  from s(1) ne have a: "\<exists>x. a = Float x \<and> 0 \<le> x \<and> x \<le> 1"
    by (rule accuracy_score_bounds)
  from s(2) have p: "\<exists>x. p = Float x \<and> 0 \<le> x \<and> x \<le> 1"
    by (rule precision_score_bounds)
  from s(3) have r: "\<exists>x. r = Float x \<and> 0 \<le> x \<and> x \<le> 1"
    by (rule recall_score_bounds)
  from a p r u have "set Y_test = {0, 1} \<longrightarrow>
      (\<forall>v \<in> {a, p, r, u}. \<exists>x. v = Float x \<and> 0 \<le> x \<and> x \<le> 1)"
    using both_classes_remdups [of Y_test] by blast
  with s(5) show ?thesis by blast
qed

lemma ex_evaluate:
  "evaluate_model ex_libs ex_clf (iloc_all_but_last ex_frame) [1, 1, 0, 1] ex_world =
     (Inr (PDict [(''accuracy'', PFloat (Float (3 / 4))), (''precision'', PFloat (Float (3 / 4))),
                  (''recall'', PFloat (Float 1)), (''auc'', PFloat (Float 1))]),
      snd (evaluate_model ex_libs ex_clf (iloc_all_but_last ex_frame) [1, 1, 0, 1] ex_world))"
  by (simp add: ex_defs prog_defs metric_defs io_defs eval_nat_numeral)

lemma ex_evaluate_fst:
  "fst (evaluate_model ex_libs ex_clf (iloc_all_but_last ex_frame) [1, 1, 0, 1] ex_world) =
     Inr (PDict [(''accuracy'', PFloat (Float (3 / 4))), (''precision'', PFloat (Float (3 / 4))),
                 (''recall'', PFloat (Float 1)), (''auc'', PFloat (Float 1))])"
  using ex_evaluate by (metis fst_conv)

lemma ex_evaluate_one_class:
  "fst (evaluate_model ex_libs ex_clf (iloc_all_but_last ex_frame) [1, 1, 1, 1] ex_world) =
     Inr (PDict [(''accuracy'', PFloat (Float 1)), (''precision'', PFloat (Float 1)),
                 (''recall'', PFloat (Float 1)), (''auc'', PFloat NaN)])"
  by (simp add: ex_defs prog_defs metric_defs io_defs eval_nat_numeral)

theorem evaluate_model_metrics_result_witness:
  "set [1, 1, 0, 1] = {0, 1 :: int} \<and>
   fst (evaluate_model ex_libs ex_clf (iloc_all_but_last ex_frame) [1, 1, 0, 1] ex_world) =
     Inr (PDict [(''accuracy'', PFloat (Float (3 / 4))), (''precision'', PFloat (Float (3 / 4))),
                 (''recall'', PFloat (Float 1)), (''auc'', PFloat (Float 1))]) \<and>
   (\<exists>x. Float (3 / 4) = Float x \<and> 0 \<le> x \<and> x \<le> 1) \<and>
   (\<exists>x. Float 1 = Float x \<and> 0 \<le> x \<and> x \<le> 1)"
proof -
  have b: "set [1, 1, 0, 1] = {0, 1 :: int}" by auto
  from evaluate_model_metrics_result [OF ex_evaluate] b
  obtain a p r u where
    m: "PDict [(''accuracy'', PFloat (Float (3 / 4))), (''precision'', PFloat (Float (3 / 4))),
                  (''recall'', PFloat (Float 1)), (''auc'', PFloat (Float 1))] =
        PDict [(''accuracy'', PFloat a), (''precision'', PFloat p),
                 (''recall'', PFloat r), (''auc'', PFloat u)]"
    and v: "\<forall>v \<in> {a, p, r, u}. \<exists>x. v = Float x \<and> 0 \<le> x \<and> x \<le> 1"
    by blast
  from m have "a = Float (3 / 4)" and "u = Float 1" by auto
  with v have "\<exists>x. Float (3 / 4) = Float x \<and> 0 \<le> x \<and> x \<le> 1"
    and "\<exists>x. Float 1 = Float x \<and> 0 \<le> x \<and> x \<le> 1"
    by blast+
  with b ex_evaluate_fst show ?thesis by blast
qed

text \<open>
  C4. For a model whose \<open>predict\<close> returns label 1 on each of the four rows and
  \<open>Y_test = [1, 1, 0, 1]\<close>, the dictionary that \<open>evaluate_model\<close> returns holds accuracy
  3/4 (0.75), precision 3/4 (0.75) and recall 1 (1.0).
\<close>

theorem evaluate_model_all_ones:
  "predict clf = Some f \<Longrightarrow> nrows X_test = 4 \<Longrightarrow>
   f X_test = Inr (replicate (nrows X_test) 1) \<Longrightarrow>
   evaluate_model L clf X_test [1, 1, 0, 1] w = (Inr m, w') \<Longrightarrow>
   (\<exists>u. m = PDict [(''accuracy'', PFloat (Float (3 / 4))), (''precision'', PFloat (Float (3 / 4))),
                   (''recall'', PFloat (Float 1)), (''auc'', PFloat u)])"
proof -
  assume f: "predict clf = Some f" and n: "nrows X_test = 4"
    and one: "f X_test = Inr (replicate (nrows X_test) 1)"
    and ev: "evaluate_model L clf X_test [1, 1, 0, 1] w = (Inr m, w')"
  from ev obtain f' Y_pred a p r u where
    s: "predict clf = Some f'" "f' X_test = Inr Y_pred"
       "accuracy_score [1, 1, 0, 1] Y_pred = Inr a" "precision_score [1, 1, 0, 1] Y_pred = Inr p"
       "recall_score [1, 1, 0, 1] Y_pred = Inr r"
       "m = PDict [(''accuracy'', PFloat a), (''precision'', PFloat p),
                   (''recall'', PFloat r), (''auc'', PFloat u)]"
    by (elim evaluate_model_success) blast
  from s(1,2) f one n have Y: "Y_pred = [1, 1, 1, 1]"
    by (simp add: eval_nat_numeral)
  from s(3) Y have "a = Float (3 / 4)" by (simp add: metric_defs)
  moreover from s(4) Y have "p = Float (3 / 4)" by (simp add: metric_defs)
  moreover from s(5) Y have "r = Float 1" by (simp add: metric_defs)
  ultimately show ?thesis using s(6) by simp
qed

theorem evaluate_model_all_ones_witness:
  "predict ex_clf = Some (\<lambda>X. Inr (replicate (nrows X) 1)) \<and>
   nrows (iloc_all_but_last ex_frame) = 4 \<and>
   fst (evaluate_model ex_libs ex_clf (iloc_all_but_last ex_frame) [1, 1, 0, 1] ex_world) =
     Inr (PDict [(''accuracy'', PFloat (Float (3 / 4))), (''precision'', PFloat (Float (3 / 4))),
                 (''recall'', PFloat (Float 1)), (''auc'', PFloat (Float 1))])"
proof -
  have f: "predict ex_clf = Some (\<lambda>X. Inr (replicate (nrows X) 1))"
    by (simp add: ex_clf_def)
  have n: "nrows (iloc_all_but_last ex_frame) = 4"
    by (simp add: ex_frame_def iloc_all_but_last_def)
  have one: "(\<lambda>X. Inr (replicate (nrows X) 1)) (iloc_all_but_last ex_frame) =
      (Inr (replicate (nrows (iloc_all_but_last ex_frame)) 1) :: exn + int list)"
    by simp
  from evaluate_model_all_ones [OF f n one ex_evaluate] f n ex_evaluate_fst
  show ?thesis by simp
qed

text \<open>
  C7. The value under \<^verbatim>\<open>auc\<close> is \<open>roc_auc_score\<close> of \<open>Y_test\<close> and column 1 of what
  \<open>predict_proba\<close> returned on \<open>X_test\<close>: the probabilities, not the hard predictions,
  are the scores. In the example run the two differ: column 1 gives 1, the predictions
  would give 1/2.
\<close>

theorem evaluate_model_auc_from_column1:
  "evaluate_model L clf X_test Y_test w = (Inr m, w') \<Longrightarrow>
   (\<exists>g P a p r u.
      predict_proba clf = Some g \<and> g X_test = Inr P \<and> 1 < length P \<and>
      roc_auc_score Y_test (P ! 1) = Inr u \<and>
      m = PDict [(''accuracy'', PFloat a), (''precision'', PFloat p),
                 (''recall'', PFloat r), (''auc'', PFloat u)])"
  by (elim evaluate_model_success) blast

theorem evaluate_model_auc_from_column1_witness:
  "predict_proba ex_clf =
     Some (\<lambda>X. Inr [[1 / 10, 2 / 10, 7 / 10, 3 / 10], [9 / 10, 8 / 10, 3 / 10, 7 / 10]]) \<and>
   roc_auc_score [1, 1, 0, 1] [9 / 10, 8 / 10, 3 / 10, 7 / 10] = Inr (Float 1) \<and>
   roc_auc_score [1, 1, 0, 1] [1 / 10, 2 / 10, 7 / 10, 3 / 10] = Inr (Float 0) \<and>
   roc_auc_score [1, 1, 0, 1] (map of_int [1, 1, 1, 1]) = Inr (Float (1 / 2)) \<and>
   (\<exists>a p r. fst (evaluate_model ex_libs ex_clf (iloc_all_but_last ex_frame) [1, 1, 0, 1] ex_world) =
     Inr (PDict [(''accuracy'', PFloat a), (''precision'', PFloat p),
                 (''recall'', PFloat r), (''auc'', PFloat (Float 1))]))"
proof -
  from evaluate_model_auc_from_column1 [OF ex_evaluate]
  obtain g P a p r u where
    g: "predict_proba ex_clf = Some g" "g (iloc_all_but_last ex_frame) = Inr P"
    and u: "roc_auc_score [1, 1, 0, 1] (P ! 1) = Inr u"
    and m: "PDict [(''accuracy'', PFloat (Float (3 / 4))), (''precision'', PFloat (Float (3 / 4))),
                  (''recall'', PFloat (Float 1)), (''auc'', PFloat (Float 1))] =
        PDict [(''accuracy'', PFloat a), (''precision'', PFloat p),
                 (''recall'', PFloat r), (''auc'', PFloat u)]"
    by blast
  from g have "P = [[1 / 10, 2 / 10, 7 / 10, 3 / 10], [9 / 10, 8 / 10, 3 / 10, 7 / 10]]"
    by (auto simp: ex_clf_def)
  moreover from m have "u = Float 1" by auto
  ultimately have 1: "roc_auc_score [1, 1, 0, 1] [9 / 10, 8 / 10, 3 / 10, 7 / 10] = Inr (Float 1)"
    using u by simp
  have 2: "roc_auc_score [1, 1, 0, 1] [1 / 10, 2 / 10, 7 / 10, 3 / 10] = Inr (Float 0)"
    by (simp add: metric_defs)
  have 3: "roc_auc_score [1, 1, 0, 1] (map of_int [1, 1, 1, 1]) = Inr (Float (1 / 2))"
    by (simp add: metric_defs)
  have 4: "predict_proba ex_clf =
     Some (\<lambda>X. Inr [[1 / 10, 2 / 10, 7 / 10, 3 / 10], [9 / 10, 8 / 10, 3 / 10, 7 / 10]])"
    by (simp add: ex_clf_def)
  from 1 2 3 4 ex_evaluate_fst show ?thesis by simp
qed

section \<open>The tracking session is scoped\<close>

lemma live_logger_emit: "live (snd (logger_emit l m w)) = live w"
  by (simp add: logger_emit_def)















section \<open>The metrics writer is not atomic\<close>

lemma save_metrics_dict_type_error:
  "unwritable w file_path = None \<Longrightarrow>
   json_dump L metrics = (txt, Some (Exn TypeError msg)) \<Longrightarrow>
   save_metrics_dict L metrics file_path w =
     (Inl (Exn TypeError msg),
      w\<lparr>fs := (fs w)(file_path \<mapsto> txt),
        logged := logged w @ [(ERROR, ''Error: Type error in metrics dictionary. Details: '' @ msg)]\<rparr>)"
  by (simp add: save_metrics_dict_def save_metrics_dict_try_def save_metrics_dict_except_def
      open_write_def file_write_def io_defs isinstance_def)

text \<open>
  C9. \<open>save_metrics_dict\<close> opens the path for writing, which creates or truncates the
  file, before it serialises. When the open succeeds and \<^verbatim>\<open>json.dump\<close> raises a
  \<^verbatim>\<open>TypeError\<close> (a value that is not JSON serialisable) after writing \<open>txt\<close>, the call
  logs the error and raises it, and the file holds \<open>txt\<close>: whatever it held before is
  lost.
\<close>

theorem save_metrics_dict_not_atomic:
  "unwritable w file_path = None \<Longrightarrow>
   json_dump L metrics = (txt, Some (Exn TypeError msg)) \<Longrightarrow>
   fst (save_metrics_dict L metrics file_path w) = Inl (Exn TypeError msg) \<and>
   fs (snd (save_metrics_dict L metrics file_path w)) file_path = Some txt \<and>
   logged (snd (save_metrics_dict L metrics file_path w)) =
     logged w @ [(ERROR, ''Error: Type error in metrics dictionary. Details: '' @ msg)]"
  by (simp add: save_metrics_dict_type_error)

theorem save_metrics_dict_not_atomic_witness:
  "fs ex_world ''reports/metrics.json'' = Some ''(old report)'' \<and>
   fst (save_metrics_dict
      (ex_libs\<lparr>json_dump := \<lambda>v. (''{'', Some (Exn TypeError
         ''Object of type ndarray is not JSON serializable''))\<rparr>)
      (PDict [(''accuracy'', PObject ''ndarray'')]) ''reports/metrics.json'' ex_world) =
     Inl (Exn TypeError ''Object of type ndarray is not JSON serializable'') \<and>
   fs (snd (save_metrics_dict
      (ex_libs\<lparr>json_dump := \<lambda>v. (''{'', Some (Exn TypeError
         ''Object of type ndarray is not JSON serializable''))\<rparr>)
      (PDict [(''accuracy'', PObject ''ndarray'')]) ''reports/metrics.json'' ex_world))
     ''reports/metrics.json'' = Some ''{''"
proof -
  let ?L = "ex_libs\<lparr>json_dump := \<lambda>v. (''{'', Some (Exn TypeError
         ''Object of type ndarray is not JSON serializable''))\<rparr>"
  have u: "unwritable ex_world ''reports/metrics.json'' = None"
    by (simp add: ex_world_def)
  have j: "json_dump ?L (PDict [(''accuracy'', PObject ''ndarray'')]) =
      (''{'', Some (Exn TypeError ''Object of type ndarray is not JSON serializable''))"
    by simp
  have old: "fs ex_world ''reports/metrics.json'' = Some ''(old report)''"
    by (simp add: ex_world_def)
  from save_metrics_dict_not_atomic [OF u j] old show ?thesis by simp
qed

section \<open>Labels and rows that do not match\<close>

lemma row_mismatch_raises:
  assumes "predict clf = Some f" "f X_test = Inr Y_pred" "length Y_pred = nrows X_test"
    "predict_proba clf = Some g" "g X_test = Inr P" "1 < length P"
    "load_params L ''params.yaml'' w = (Inr params, w1)"
    "length Y_test \<noteq> nrows X_test"
  shows "evaluate_model L clf X_test Y_test w =
     (Inl inconsistent_length,
      w1\<lparr>logged := logged w1 @
        [(ERROR, ''Error: Value error in predictions or metrics calculation. Details: '' @
           str inconsistent_length)]\<rparr>)"
  using assms
  by (simp add: evaluate_model_def evaluate_model_try_def evaluate_model_except_def
      call_predict_def call_predict_proba_def column1_def accuracy_score_def
      inconsistent_length_def io_defs isinstance_def)

text \<open>
  C5, as amended. Let \<open>X_test\<close> have R rows and \<open>Y_test\<close> a different number of rows.
  When the model's \<open>predict\<close> returns R labels, its \<open>predict_proba\<close> returns a matrix
  with at least two columns and \<^verbatim>\<open>params.yaml\<close> loads, \<open>evaluate_model\<close> raises a
  \<^verbatim>\<open>ValueError\<close>, logged by the \<^verbatim>\<open>except ValueError\<close> branch at level ERROR and then
  re-raised, and returns no metrics.
\<close>

theorem evaluate_model_row_mismatch:
  "predict clf = Some f \<Longrightarrow> f X_test = Inr Y_pred \<Longrightarrow> length Y_pred = nrows X_test \<Longrightarrow>
   predict_proba clf = Some g \<Longrightarrow> g X_test = Inr P \<Longrightarrow> 1 < length P \<Longrightarrow>
   load_params L ''params.yaml'' w = (Inr params, w1) \<Longrightarrow>
   length Y_test \<noteq> nrows X_test \<Longrightarrow>
   (\<exists>e. fst (evaluate_model L clf X_test Y_test w) = Inl e \<and> isinstance e ValueError \<and>
      logged (snd (evaluate_model L clf X_test Y_test w)) = logged w1 @
        [(ERROR, ''Error: Value error in predictions or metrics calculation. Details: '' @ str e)])"
  by (simp add: row_mismatch_raises) (simp add: inconsistent_length_def isinstance_def)

theorem evaluate_model_row_mismatch_witness:
  "length [1, 1, 0 :: int] \<noteq> nrows (iloc_all_but_last ex_frame) \<and>
   fst (evaluate_model ex_libs ex_clf (iloc_all_but_last ex_frame) [1, 1, 0] ex_world) =
     Inl (Exn ValueError ''Found input variables with inconsistent numbers of samples'') \<and>
   logged (snd (evaluate_model ex_libs ex_clf (iloc_all_but_last ex_frame) [1, 1, 0] ex_world)) =
     [(ERROR, ''Error: Value error in predictions or metrics calculation. Details: '' @
        ''Found input variables with inconsistent numbers of samples'')]"
proof -
  let ?X = "iloc_all_but_last ex_frame"
  have f: "predict ex_clf = Some (\<lambda>X. Inr (replicate (nrows X) 1))"
    and g: "predict_proba ex_clf =
      Some (\<lambda>X. Inr [[1 / 10, 2 / 10, 7 / 10, 3 / 10], [9 / 10, 8 / 10, 3 / 10, 7 / 10]])"
    by (simp_all add: ex_clf_def)
  have fx: "(\<lambda>X. Inr (replicate (nrows X) 1)) ?X = (Inr (replicate (nrows ?X) 1) :: exn + int list)"
    by simp
  have len: "length (replicate (nrows ?X) (1 :: int)) = nrows ?X" by simp
  have gx: "(\<lambda>X. Inr [[1 / 10, 2 / 10, 7 / 10, 3 / 10], [9 / 10, 8 / 10, 3 / 10, 7 / 10]]) ?X =
      (Inr [[1 / 10, 2 / 10, 7 / 10, 3 / 10], [9 / 10, 8 / 10, 3 / 10, 7 / 10]] :: exn + rat list list)"
    by simp
  have two: "1 < length [[1 / 10, 2 / 10, 7 / 10, 3 / 10], [9 / 10, 8 / 10, 3 / 10, 7 / 10 :: rat]]"
    by simp
  have lp: "load_params ex_libs ''params.yaml'' ex_world = (Inr ex_params, ex_world)"
    by (simp add: ex_libs_def ex_world_def load_params_def open_read_def io_defs)
  have ne: "length [1, 1, 0 :: int] \<noteq> nrows ?X"
    by (simp add: ex_frame_def iloc_all_but_last_def)
  have r: "fst (evaluate_model ex_libs ex_clf ?X [1, 1, 0] ex_world) =
     Inl (Exn ValueError ''Found input variables with inconsistent numbers of samples'')"
    by (simp add: ex_defs prog_defs metric_defs io_defs eval_nat_numeral)
  from evaluate_model_row_mismatch [OF f fx len g gx two lp ne] r ne
  show ?thesis by (auto simp: ex_world_def)
qed

text \<open>
  Without these conditions the claim fails: the calls that precede the metrics raise
  first. With four rows against three labels, a missing \<^verbatim>\<open>params.yaml\<close> gives a
  \<^verbatim>\<open>FileNotFoundError\<close> and a model without \<open>predict\<close> an \<^verbatim>\<open>AttributeError\<close>; neither is
  a \<^verbatim>\<open>ValueError\<close>.
\<close>

theorem evaluate_model_row_mismatch_counterexample:
  "nrows (iloc_all_but_last ex_frame) = 4 \<and> length [1, 1, 0 :: int] = 3 \<and>
   fst (evaluate_model ex_libs ex_clf (iloc_all_but_last ex_frame) [1, 1, 0]
         (ex_world\<lparr>fs := (fs ex_world)(''params.yaml'' := None)\<rparr>)) =
     Inl (Exn FileNotFoundError (''[Errno 2] No such file or directory: '' @ quote ''params.yaml'')) \<and>
   \<not> isinstance
     (Exn FileNotFoundError (''[Errno 2] No such file or directory: '' @ quote ''params.yaml''))
     ValueError \<and>
   fst (evaluate_model ex_libs (ex_clf\<lparr>predict := None\<rparr>) (iloc_all_but_last ex_frame) [1, 1, 0]
         ex_world) =
     Inl (Exn AttributeError (quote ''GradientBoostingClassifier'' @ '' object has no attribute ''
        @ quote ''predict'')) \<and>
   \<not> isinstance
     (Exn AttributeError (quote ''GradientBoostingClassifier'' @ '' object has no attribute ''
        @ quote ''predict''))
     ValueError"
  by (simp add: ex_defs prog_defs metric_defs io_defs eval_nat_numeral)

section \<open>A parameter file with a top-level scalar\<close>







end
